theory Spec2Isabelle
  imports Complex_Main "HOL-Library.Sublist"
begin

section \<open>The item tracker of \<^verbatim>\<open>main.py\<close>\<close>

text \<open>
  The class \<^verbatim>\<open>ItemTracker\<close> keeps a list of items, each a dictionary with the eight
  keys that \<^verbatim>\<open>add_item\<close> writes. The model types that dictionary as a record, the
  coordinates (Python floats) as exact reals, so the literal \<^verbatim>\<open>0.1\<close> is the real
  \<open>1/10\<close> and rounding, infinities and NaN are outside the model. Strings are
  \<^typ>\<open>string\<close>; a character beyond ASCII is the sequence of its UTF-8 bytes.
  Output written by \<^verbatim>\<open>print\<close> is not modelled. Methods take the tracker and return
  their result together with the tracker after the call.
\<close>

subsection \<open>Data\<close>

record item =
  item_name :: string
  item_region :: string
  item_x :: real
  item_y :: real
  item_type :: string
  item_collected :: bool
  item_date_added :: string
  item_notes :: string

record tracker =
  data_file :: string
  items :: "item list"
  regions :: "string list"

subsection \<open>\<^verbatim>\<open>str.lower\<close>\<close>



subsection \<open>\<^verbatim>\<open>add_item\<close>\<close>



subsection \<open>\<^verbatim>\<open>mark_collected\<close>\<close>

text \<open>
  Every position of the list holds a dictionary of its own (\<^verbatim>\<open>add_item\<close> builds a new
  one at each call, and so does \<^verbatim>\<open>json.load\<close>), so the assignment to a key of
  \<^verbatim>\<open>self.items[index]\<close> is an update of the list at that position. The index is a
  Python integer; the test \<^verbatim>\<open>if notes\<close> holds for a string that is not empty.
\<close>

definition mark_collected :: "tracker \<Rightarrow> int \<Rightarrow> bool \<Rightarrow> string \<Rightarrow> bool \<times> tracker" where
  "mark_collected t index collected notes =
     (if 0 \<le> index \<and> index < int (length (items t)) then
        (let i = nat index;
             its1 = (items t)[i := (items t ! i)\<lparr>item_collected := collected\<rparr>];
             its2 = (if notes \<noteq> [] then its1[i := (its1 ! i)\<lparr>item_notes := notes\<rparr>] else its1)
         in (True, t\<lparr>items := its2\<rparr>))
      else (False, t))"

subsection \<open>Queries\<close>

definition get_all_items :: "tracker \<Rightarrow> item list" where
  "get_all_items t = items t"




subsection \<open>The data file\<close>

text \<open>
  \<^verbatim>\<open>json.dump\<close> and \<^verbatim>\<open>json.load\<close> belong to Python's library. A file is modelled by
  the value that \<^verbatim>\<open>json.load\<close> makes of it: a JSON document, or \<open>Malformed\<close> when
  \<^verbatim>\<open>open\<close> or \<^verbatim>\<open>json.load\<close> raises on it (text that is no JSON, a truncated file, a
  directory). An object is the list of its keys and values in the order of the file;
  a parsed object has every key once.
\<close>

datatype json =
    JNull
  | JBool bool
  | JInt int
  | JFloat real
  | JStr string
  | JArr "json list"
  | JObj "(string \<times> json) list"

datatype file_content = Malformed | Document json

type_synonym filesystem = "string \<rightharpoonup> file_content"

text \<open>The dictionary of an item as \<^verbatim>\<open>json.dump\<close> writes it, key by key.\<close>

definition item_to_json :: "item \<Rightarrow> json" where
  "item_to_json it =
     JObj [(''name'', JStr (item_name it)),
           (''region'', JStr (item_region it)),
           (''x'', JFloat (item_x it)),
           (''y'', JFloat (item_y it)),
           (''type'', JStr (item_type it)),
           (''collected'', JBool (item_collected it)),
           (''date_added'', JStr (item_date_added it)),
           (''notes'', JStr (item_notes it))]"

fun json_get :: "json \<Rightarrow> string \<Rightarrow> json" where
  "json_get (JObj kvs) k = (case map_of kvs k of None \<Rightarrow> JNull | Some v \<Rightarrow> v)"
| "json_get _ k = JNull"

fun json_str :: "json \<Rightarrow> string" where
  "json_str (JStr s) = s"
| "json_str _ = []"

fun json_float :: "json \<Rightarrow> real" where
  "json_float (JFloat r) = r"
| "json_float _ = 0"

fun json_bool :: "json \<Rightarrow> bool" where
  "json_bool (JBool b) = b"
| "json_bool _ = False"

text \<open>
  \<^verbatim>\<open>load_data\<close> stores whatever the file has under \<^verbatim>\<open>items\<close>, without a check. The
  typed store of this theory can hold it when it is a list of item dictionaries as
  \<^verbatim>\<open>add_item\<close> writes them: \<open>item_of_json\<close> reads the eight fields and accepts the
  object when writing them again gives the same object.
\<close>

definition item_of_json :: "json \<Rightarrow> item option" where
  "item_of_json j =
     (let it = \<lparr>item_name = json_str (json_get j ''name''),
                item_region = json_str (json_get j ''region''),
                item_x = json_float (json_get j ''x''),
                item_y = json_float (json_get j ''y''),
                item_type = json_str (json_get j ''type''),
                item_collected = json_bool (json_get j ''collected''),
                item_date_added = json_str (json_get j ''date_added''),
                item_notes = json_str (json_get j ''notes'')\<rparr>
      in if item_to_json it = j then Some it else None)"

fun items_of_json :: "json \<Rightarrow> item list option" where
  "items_of_json (JArr js) =
     (if list_all (\<lambda>j. item_of_json j \<noteq> None) js then Some (map (\<lambda>j. the (item_of_json j)) js)
      else None)"
| "items_of_json _ = None"

text \<open>Whether \<^verbatim>\<open>len\<close> accepts the value or raises \<^verbatim>\<open>TypeError\<close>.\<close>

fun has_len :: "json \<Rightarrow> bool" where
  "has_len (JStr s) = True"
| "has_len (JArr js) = True"
| "has_len (JObj kvs) = True"
| "has_len _ = False"

subsection \<open>\<^verbatim>\<open>save_data\<close>\<close>

text \<open>
  What the operating system does at a call of \<^verbatim>\<open>save_data\<close> is an argument: every
  step succeeds, or \<^verbatim>\<open>os.makedirs\<close> raises (also when the path has no directory part),
  or \<^verbatim>\<open>open\<close> raises, or \<^verbatim>\<open>json.dump\<close> raises after \<^verbatim>\<open>open\<close> has truncated the file.
  \<open>now\<close> is the formatted time of the call.
\<close>

datatype io_outcome = Io_ok | Makedirs_raises | Open_raises | Dump_raises

definition save_data ::
  "tracker \<Rightarrow> filesystem \<Rightarrow> string \<Rightarrow> io_outcome \<Rightarrow> bool \<times> tracker \<times> filesystem" where
  "save_data t fs now io =
     (case io of
        Makedirs_raises \<Rightarrow> (False, t, fs)
      | Open_raises \<Rightarrow> (False, t, fs)
      | Dump_raises \<Rightarrow> (False, t, fs(data_file t \<mapsto> Malformed))
      | Io_ok \<Rightarrow>
          (let data = JObj [(''metadata'',
                              JObj [(''save_date'', JStr now),
                                    (''total_items'', JInt (int (length (items t))))]),
                            (''items'', JArr (map item_to_json (items t)))]
           in (True, t, fs(data_file t \<mapsto> Document data))))"

subsection \<open>\<^verbatim>\<open>load_data\<close>\<close>

text \<open>
  The result \<open>Inr (r, t')\<close> is the return value \<open>r\<close> and the tracker after the call.
  The result \<open>Inl v\<close> stands for the one outcome that the typed store cannot hold:
  the file has a value \<open>v\<close> under \<^verbatim>\<open>items\<close> that is not a list of item dictionaries;
  \<^verbatim>\<open>load_data\<close> then keeps \<open>v\<close> in \<^verbatim>\<open>self.items\<close> and returns \<^verbatim>\<open>True\<close>.

  A document that is not an object ends in the \<^verbatim>\<open>else\<close> branch or in the
  \<^verbatim>\<open>except\<close> branch (the test \<^verbatim>\<open>'items' in data\<close> or the subscript
  \<^verbatim>\<open>data['items']\<close> raises \<^verbatim>\<open>TypeError\<close>); both empty the list and return \<^verbatim>\<open>False\<close>.
  So does a value under \<^verbatim>\<open>items\<close> that \<^verbatim>\<open>len\<close> rejects.
\<close>

definition load_data :: "tracker \<Rightarrow> filesystem \<Rightarrow> json + bool \<times> tracker" where
  "load_data t fs =
     (case fs (data_file t) of
        None \<Rightarrow> Inr (False, t\<lparr>items := []\<rparr>)
      | Some Malformed \<Rightarrow> Inr (False, t\<lparr>items := []\<rparr>)
      | Some (Document data) \<Rightarrow>
          (case data of
             JObj kvs \<Rightarrow>
               (case map_of kvs ''items'' of
                  None \<Rightarrow> Inr (False, t\<lparr>items := []\<rparr>)
                | Some v \<Rightarrow>
                    if has_len v then
                      (case items_of_json v of
                         Some its \<Rightarrow> Inr (True, t\<lparr>items := its\<rparr>)
                       | None \<Rightarrow> Inl v)
                    else Inr (False, t\<lparr>items := []\<rparr>))
           | _ \<Rightarrow> Inr (False, t\<lparr>items := []\<rparr>)))"

text \<open>The constructor: the fields, then \<^verbatim>\<open>load_data\<close>, whose return value it drops.\<close>

definition ItemTracker_init :: "string \<Rightarrow> filesystem \<Rightarrow> json + tracker" where
  "ItemTracker_init path fs =
     (case load_data \<lparr>data_file = path, items = [],
                      regions = [''Mondstadt'', ''Liyue'', ''Inazuma'', ''Sumeru'',
                                 ''Fontaine'', ''Natlan'', ''Snezhnaya'']\<rparr> fs of
        Inl v \<Rightarrow> Inl v
      | Inr (r, t) \<Rightarrow> Inr t)"

subsection \<open>The specification's vocabulary\<close>




text \<open>A document has the key \<^verbatim>\<open>items\<close> when it is an object with that key.\<close>

fun has_items_key :: "json \<Rightarrow> bool" where
  "has_items_key (JObj kvs) = (''items'' \<in> fst ` set kvs)"
| "has_items_key _ = False"

subsection \<open>Concrete values\<close>

text \<open>
  The item types of the menu that mean chest and resource, as the UTF-8 bytes of the
  Cyrillic words, a file system without any file, and the tracker that the
  constructor builds there.
\<close>

definition type_chest :: string where
  "type_chest = [CHR 0xD0, CHR 0xA1, CHR 0xD1, CHR 0x83, CHR 0xD0, CHR 0xBD,
                 CHR 0xD0, CHR 0xB4, CHR 0xD1, CHR 0x83, CHR 0xD0, CHR 0xBA]"

definition type_resource :: string where
  "type_resource = [CHR 0xD0, CHR 0xA0, CHR 0xD0, CHR 0xB5, CHR 0xD1, CHR 0x81,
                    CHR 0xD1, CHR 0x83, CHR 0xD1, CHR 0x80, CHR 0xD1, CHR 0x81]"

definition no_files :: filesystem where
  "no_files = (\<lambda>path. None)"

definition empty_tracker :: tracker where
  "empty_tracker =
     \<lparr>data_file = ''data/items.json'', items = [],
      regions = [''Mondstadt'', ''Liyue'', ''Inazuma'', ''Sumeru'',
                 ''Fontaine'', ''Natlan'', ''Snezhnaya'']\<rparr>"

text \<open>A store with two items, the second one collected and annotated.\<close>

definition chest_a :: item where
  "chest_a = \<lparr>item_name = ''Chest A'', item_region = ''Mondstadt'', item_x = 10, item_y = 20,
              item_type = type_chest, item_collected = False,
              item_date_added = ''2024-01-01 12:00:00'', item_notes = ''''\<rparr>"

definition ore_b :: item where
  "ore_b = \<lparr>item_name = ''Ore B'', item_region = ''Liyue'', item_x = 5, item_y = - 3 / 2,
            item_type = type_resource, item_collected = True,
            item_date_added = ''2024-01-02 08:30:00'', item_notes = ''north cliff''\<rparr>"

definition sample_tracker :: tracker where
  "sample_tracker = empty_tracker\<lparr>items := [chest_a, ore_b]\<rparr>"

section \<open>Properties\<close>



lemma init_missing_file: "ItemTracker_init ''data/items.json'' no_files = Inr empty_tracker"
  by (simp add: ItemTracker_init_def load_data_def empty_tracker_def no_files_def)

subsection \<open>Auxiliary facts\<close>

lemma mark_collected_in_range:
  assumes "0 \<le> index" "index < int (length (items t))"
  shows "mark_collected t index collected notes =
    (True, t\<lparr>items := (items t)[nat index := (items t ! nat index)
       \<lparr>item_collected := collected,
        item_notes := (if notes \<noteq> [] then notes else item_notes (items t ! nat index))\<rparr>]\<rparr>)"
  using assms by (simp add: mark_collected_def Let_def)



lemma item_of_json_item_to_json: "item_of_json (item_to_json it) = Some it"
  by (cases it) (simp add: item_of_json_def item_to_json_def Let_def)

lemma items_of_json_encode: "items_of_json (JArr (map item_to_json its)) = Some its"
  by (simp add: list_all_iff item_of_json_item_to_json map_idI)

lemma map_of_no_key: "k \<notin> fst ` set kvs \<Longrightarrow> map_of kvs k = None"
  by (simp add: map_of_eq_None_iff)







subsection \<open>Adding\<close>







subsection \<open>Marking\<close>

text \<open>
  C4. With an index below zero or not below the number of items, \<^verbatim>\<open>mark_collected\<close>
  returns \<^verbatim>\<open>False\<close> and the tracker after the call is the tracker before it: no field
  of any item, nor the length or the order of the list, has changed.
\<close>

theorem mark_collected_out_of_range_fails:
  assumes "index < 0 \<or> int (length (items t)) \<le> index"
  shows "mark_collected t index collected notes = (False, t)"
proof -
  have "\<not> (0 \<le> index \<and> index < int (length (items t)))"
    using assms by linarith
  then show ?thesis
    unfolding mark_collected_def by (simp only: if_False)
qed

theorem mark_collected_out_of_range_fails_witness:
  "int (length (items sample_tracker)) \<le> 2 \<and>
   mark_collected sample_tracker 2 True ''found'' = (False, sample_tracker) \<and>
   mark_collected sample_tracker (- 1) True ''found'' = (False, sample_tracker)"
  using mark_collected_out_of_range_fails [of 2 sample_tracker True "''found''"]
    mark_collected_out_of_range_fails [of "- 1" sample_tracker True "''found''"]
  by (simp add: sample_tracker_def)

text \<open>
  C9. With an index in range and empty notes, \<^verbatim>\<open>mark_collected\<close> sets the collected
  flag of that item and keeps its notes. With any notes, the name, region,
  coordinates, type and date of that item, every other item, the length of the list,
  the path and the regions are as before.
\<close>

theorem mark_collected_frame:
  fixes t :: tracker and index :: int and collected :: bool and notes' :: string
  defines "i \<equiv> nat index"
    and "t0 \<equiv> snd (mark_collected t index collected [])"
    and "t' \<equiv> snd (mark_collected t index collected notes')"
  assumes "0 \<le> index" "index < int (length (items t))"
  shows "mark_collected t index collected [] =
           (True, t\<lparr>items := (items t)[i := (items t ! i)\<lparr>item_collected := collected\<rparr>]\<rparr>) \<and>
         item_collected (items t0 ! i) = collected \<and>
         item_notes (items t0 ! i) = item_notes (items t ! i) \<and>
         fst (mark_collected t index collected notes') = True \<and>
         item_name (items t' ! i) = item_name (items t ! i) \<and>
         item_region (items t' ! i) = item_region (items t ! i) \<and>
         item_x (items t' ! i) = item_x (items t ! i) \<and>
         item_y (items t' ! i) = item_y (items t ! i) \<and>
         item_type (items t' ! i) = item_type (items t ! i) \<and>
         item_date_added (items t' ! i) = item_date_added (items t ! i) \<and>
         length (items t') = length (items t) \<and>
         (\<forall>j < length (items t). j \<noteq> i \<longrightarrow> items t' ! j = items t ! j) \<and>
         data_file t' = data_file t \<and> regions t' = regions t"
proof -
  have i: "i < length (items t)"
    using assms by (simp add: i_def)
  have t0: "items t0 = (items t)[i := (items t ! i)\<lparr>item_collected := collected\<rparr>]"
    using assms(4,5) by (simp add: t0_def i_def mark_collected_in_range)
  have t': "t' = t\<lparr>items := (items t)[i := (items t ! i)
       \<lparr>item_collected := collected,
        item_notes := (if notes' \<noteq> [] then notes' else item_notes (items t ! i))\<rparr>]\<rparr>"
    using assms(4,5) by (simp add: t'_def i_def mark_collected_in_range)
  have r: "mark_collected t index collected [] =
           (True, t\<lparr>items := (items t)[i := (items t ! i)\<lparr>item_collected := collected\<rparr>]\<rparr>)"
       "fst (mark_collected t index collected notes') = True"
    using assms(4,5) by (simp_all add: i_def mark_collected_in_range)
  have others: "\<forall>j < length (items t). j \<noteq> i \<longrightarrow> items t' ! j = items t ! j"
    by (simp add: t')
  show ?thesis
    using i r others by (simp add: t0 t')
qed

theorem mark_collected_frame_witness:
  "(0::int) \<le> 1 \<and> 1 < int (length (items sample_tracker)) \<and>
   mark_collected sample_tracker 1 False [] =
     (True, sample_tracker\<lparr>items := [chest_a, ore_b\<lparr>item_collected := False\<rparr>]\<rparr>) \<and>
   item_notes (items (snd (mark_collected sample_tracker 1 False [])) ! 1) = ''north cliff'' \<and>
   item_name (items (snd (mark_collected sample_tracker 1 False ''mined out'')) ! 1) = ''Ore B'' \<and>
   items (snd (mark_collected sample_tracker 1 False ''mined out'')) ! 0 = chest_a"
proof -
  have r: "(0::int) \<le> 1" "1 < int (length (items sample_tracker))"
    by (simp_all add: sample_tracker_def)
  have old: "items sample_tracker ! Suc 0 = ore_b" "items sample_tracker ! 0 = chest_a"
      "(items sample_tracker)[Suc 0 := u] = [chest_a, u]"
      "length (items sample_tracker) = Suc (Suc 0)" for u
    by (simp_all add: sample_tracker_def)
  have f: "item_notes ore_b = ''north cliff''" "item_name ore_b = ''Ore B''"
    by (simp_all add: ore_b_def)
  from mark_collected_frame [where t = sample_tracker and index = 1 and collected = False
      and notes' = "''mined out''", OF r]
  show ?thesis
    using r by (auto simp: old f)
qed

subsection \<open>Queries\<close>





subsection \<open>Saving and loading\<close>

text \<open>
  C2. When \<^verbatim>\<open>save_data\<close> returns \<^verbatim>\<open>True\<close>, a \<^verbatim>\<open>load_data\<close> that reads the file it wrote
  returns \<^verbatim>\<open>True\<close> and leaves the list of items that was saved, every field of every
  item and the order; this holds for the same tracker and for any tracker with the same
  path.
\<close>

theorem save_then_load_roundtrip:
  assumes "save_data t fs now io = (True, t', fs')"
  shows "load_data t' fs' = Inr (True, t) \<and>
         (\<forall>t2. data_file t2 = data_file t \<longrightarrow>
            load_data t2 fs' = Inr (True, t2\<lparr>items := items t\<rparr>))"
proof -
  from assms have io: "io = Io_ok"
    by (cases io) (simp_all add: save_data_def)
  with assms have t': "t' = t"
    and fs': "fs' = fs(data_file t \<mapsto> Document (JObj
        [(''metadata'', JObj [(''save_date'', JStr now),
                              (''total_items'', JInt (int (length (items t))))]),
         (''items'', JArr (map item_to_json (items t)))]))"
    by (auto simp: save_data_def)
  have load: "load_data t2 fs' = Inr (True, t2\<lparr>items := items t\<rparr>)"
    if "data_file t2 = data_file t" for t2
    using that by (simp add: load_data_def fs' items_of_json_encode del: items_of_json.simps)
  from load [of t] have "load_data t' fs' = Inr (True, t)"
    by (simp add: t')
  with load show ?thesis by blast
qed

theorem save_then_load_roundtrip_witness:
  "fst (save_data sample_tracker no_files ''2024-01-03 09:00:00'' Io_ok) = True \<and>
   load_data sample_tracker
     (snd (snd (save_data sample_tracker no_files ''2024-01-03 09:00:00'' Io_ok))) =
     Inr (True, sample_tracker) \<and>
   load_data empty_tracker
     (snd (snd (save_data sample_tracker no_files ''2024-01-03 09:00:00'' Io_ok))) =
     Inr (True, sample_tracker)"
proof -
  have s: "save_data sample_tracker no_files ''2024-01-03 09:00:00'' Io_ok =
      (True, sample_tracker, snd (snd (save_data sample_tracker no_files ''2024-01-03 09:00:00'' Io_ok)))"
    by (simp add: save_data_def)
  have d: "data_file empty_tracker = data_file sample_tracker"
      "empty_tracker\<lparr>items := items sample_tracker\<rparr> = sample_tracker"
    by (simp_all add: sample_tracker_def)
  from save_then_load_roundtrip [OF s] d show ?thesis
    by (simp add: save_data_def)
qed

text \<open>
  C3 as stated has \<^verbatim>\<open>load_data\<close> report success when the data file does not exist.
  The code returns \<^verbatim>\<open>False\<close> there: on the tracker with the default path and a file
  system without files the result is \<^verbatim>\<open>False\<close> and not \<^verbatim>\<open>True\<close>.
\<close>

theorem load_data_missing_file_counterexample:
  "no_files (data_file empty_tracker) = None \<and>
   load_data empty_tracker no_files = Inr (False, empty_tracker) \<and>
   load_data empty_tracker no_files \<noteq> Inr (True, empty_tracker)"
  by (simp add: load_data_def no_files_def empty_tracker_def)

text \<open>
  C3, amended. When the data file does not exist, when it is malformed, and when its
  document has no key \<^verbatim>\<open>items\<close>, \<^verbatim>\<open>load_data\<close> raises nothing, returns \<^verbatim>\<open>False\<close> and
  leaves the list of items empty.
\<close>

theorem load_data_failure_empties_store:
  "(fs (data_file t) = None \<longrightarrow> load_data t fs = Inr (False, t\<lparr>items := []\<rparr>)) \<and>
   (fs (data_file t) = Some Malformed \<longrightarrow> load_data t fs = Inr (False, t\<lparr>items := []\<rparr>)) \<and>
   (\<forall>data. fs (data_file t) = Some (Document data) \<and> \<not> has_items_key data \<longrightarrow>
      load_data t fs = Inr (False, t\<lparr>items := []\<rparr>))"
proof (intro conjI allI impI)
  assume "fs (data_file t) = None"
  then show "load_data t fs = Inr (False, t\<lparr>items := []\<rparr>)"
    by (simp add: load_data_def)
next
  assume "fs (data_file t) = Some Malformed"
  then show "load_data t fs = Inr (False, t\<lparr>items := []\<rparr>)"
    by (simp add: load_data_def)
next
  fix data
  assume a: "fs (data_file t) = Some (Document data) \<and> \<not> has_items_key data"
  then show "load_data t fs = Inr (False, t\<lparr>items := []\<rparr>)"
    by (cases data) (simp_all add: load_data_def map_of_no_key)
qed

theorem load_data_failure_empties_store_witness:
  "no_files (data_file sample_tracker) = None \<and>
   load_data sample_tracker no_files = Inr (False, empty_tracker) \<and>
   load_data sample_tracker (no_files(''data/items.json'' \<mapsto> Malformed)) =
     Inr (False, empty_tracker) \<and>
   \<not> has_items_key (JObj [(''metadata'', JObj [(''total_items'', JInt 0)])]) \<and>
   load_data sample_tracker
     (no_files(''data/items.json'' \<mapsto>
        Document (JObj [(''metadata'', JObj [(''total_items'', JInt 0)])]))) =
     Inr (False, empty_tracker) \<and>
   load_data sample_tracker
     (no_files(''data/items.json'' \<mapsto> Document (JArr [JStr ''items'']))) =
     Inr (False, empty_tracker)"
proof -
  have t: "data_file sample_tracker = ''data/items.json''"
      "sample_tracker\<lparr>items := []\<rparr> = empty_tracker"
    by (simp_all add: sample_tracker_def empty_tracker_def)
  have d: "\<not> has_items_key (JObj [(''metadata'', JObj [(''total_items'', JInt 0)])])"
      "\<not> has_items_key (JArr [JStr ''items''])"
    by simp_all
  show ?thesis
    using load_data_failure_empties_store [of no_files sample_tracker]
      load_data_failure_empties_store [of "no_files(''data/items.json'' \<mapsto> Malformed)" sample_tracker]
      load_data_failure_empties_store [of "no_files(''data/items.json'' \<mapsto>
        Document (JObj [(''metadata'', JObj [(''total_items'', JInt 0)])]))" sample_tracker]
      load_data_failure_empties_store [of "no_files(''data/items.json'' \<mapsto>
        Document (JArr [JStr ''items'']))" sample_tracker]
    by (simp add: t d no_files_def)
qed

text \<open>
  C10. \<^verbatim>\<open>save_data\<close> leaves the tracker as it was, whatever it returns: the list of
  items and the path of the data file are the same after the call.
\<close>

theorem save_data_keeps_store:
  "fst (snd (save_data t fs now io)) = t \<and>
   items (fst (snd (save_data t fs now io))) = items t \<and>
   data_file (fst (snd (save_data t fs now io))) = data_file t"
  by (cases io) (simp_all add: save_data_def)

end
